theory Spec2Isabelle
  imports Main "HOL-Library.Sublist"
begin

section \<open>Data model\<close>

text \<open>
  The module \<^verbatim>\<open>apps/backend/runners/ai_analyzer/claude_client.py\<close> wraps an external agent
  SDK. The embedding follows the class \<^verbatim>\<open>ClaudeAnalysisClient\<close> method by method. Everything
  the class reaches outside itself is explicit: the file system is part of a \<open>world\<close> that
  every method takes and returns, a raised exception is a value of type \<open>error\<close>, and the
  collaborators that are not part of the module (the SDK, the credential check, the model
  resolution and the resolution of paths) are the fields of an environment record.
\<close>

text \<open>A raised Python exception: the name of its class and its message.\<close>

datatype error = Error (exc_type: string) (exc_msg: string)

text \<open>
  A \<^verbatim>\<open>pathlib.Path\<close> is the list of its parts; an absolute path has the part \<open>''/''\<close> first.
  The operator \<^verbatim>\<open>/\<close> with a plain file name adds one part, and \<^verbatim>\<open>str\<close> joins the parts.
\<close>

type_synonym path = "string list"

definition joinpath :: "path \<Rightarrow> string \<Rightarrow> path" where
  "joinpath p name = p @ [name]"

fun join_with :: "string \<Rightarrow> string list \<Rightarrow> string" where
  "join_with sep [] = []"
| "join_with sep [x] = x"
| "join_with sep (x # y # ys) = x @ sep @ join_with sep (y # ys)"

definition str_path :: "path \<Rightarrow> string" where
  "str_path p =
     (case p of
        [] \<Rightarrow> ''.''
      | r # ps \<Rightarrow> if r = ''/'' then ''/'' @ join_with ''/'' ps else join_with ''/'' (r # ps))"

text \<open>The keyword arguments of \<^verbatim>\<open>ClaudeAgentOptions\<close> that \<^verbatim>\<open>_create_client\<close> passes.\<close>

record options =
  model :: string
  system_prompt :: string
  allowed_tools :: "string list"
  max_turns :: nat
  cwd :: string
  settings :: string

text \<open>
  A streamed message carries the name of its runtime type and its content items; a content
  item has a \<^verbatim>\<open>text\<close> attribute or not (\<^verbatim>\<open>hasattr(content, "text")\<close>).
\<close>

datatype block = Block (text_attr: "string option")

datatype message = Message (type_name: string) (content: "block list")

text \<open>
  What \<^verbatim>\<open>client.receive_response()\<close> delivers to the \<^verbatim>\<open>async for\<close> loop: a finite run of
  messages that ends cleanly or with an exception raised by the iterator.
\<close>

datatype stream = End | Raise error | Yield message stream


text \<open>
  The calls the module makes to the outside, in the order it makes them: the write of the
  descriptor (\<^verbatim>\<open>open(settings_file, "w")\<close> and \<^verbatim>\<open>json.dump\<close>, with the path and the text
  to be written), the calls into the SDK, and \<^verbatim>\<open>settings_file.unlink()\<close>.
\<close>

datatype call =
    OpenWrite path string
  | NewClient options
  | AEnter
  | Query string
  | ReceiveResponse
  | AExit
  | Unlink path

text \<open>
  The world: the files (a map from paths to contents) and the trace of the calls made so
  far, each one with the files as they were when the call began.
\<close>

record world =
  files :: "path \<rightharpoonup> string"
  trace :: "(call \<times> (path \<rightharpoonup> string)) list"

text \<open>
  How the operating system answers the write of the descriptor: the file is written;
  \<^verbatim>\<open>open\<close> raises (a missing or unwritable directory) and no file is made; or \<^verbatim>\<open>open\<close> has
  made the file and the writing raises, which leaves the part written so far.
\<close>

datatype write_answer = Written | OpenFailed error | WriteFailed error string

text \<open>
  How the operating system answers \<^verbatim>\<open>unlink\<close> for a file that was there when \<^verbatim>\<open>exists()\<close>
  was asked: it removes the file; the file has gone in between and \<^verbatim>\<open>unlink\<close> raises
  \<^verbatim>\<open>FileNotFoundError\<close>; or it refuses (\<^verbatim>\<open>PermissionError\<close>, another \<^verbatim>\<open>OSError\<close>) and the
  file stays.
\<close>

datatype unlink_answer = Removed | Vanished | Refused error

text \<open>
  The collaborators. \<open>CLAUDE_SDK_AVAILABLE\<close> is the module's import flag;
  \<open>require_auth_token\<close> is \<^verbatim>\<open>core.auth.require_auth_token\<close> (\<open>Some e\<close> when it raises \<open>e\<close>);
  \<open>resolve_model_id\<close> is \<^verbatim>\<open>phase_config.resolve_model_id\<close>; \<open>resolve\<close> is \<^verbatim>\<open>Path.resolve\<close>;
  \<open>on_write\<close> and \<open>on_unlink\<close> are the answers of the operating system. The next fields
  say how the SDK answers during one session: the constructor
  \<^verbatim>\<open>ClaudeSDKClient(options=...)\<close>, \<^verbatim>\<open>__aenter__\<close>, \<^verbatim>\<open>query\<close> (each \<open>Some e\<close> when it raises
  \<open>e\<close>), the stream of \<^verbatim>\<open>receive_response\<close>, and \<^verbatim>\<open>__aexit__\<close>: it is given the exception
  that leaves the \<^verbatim>\<open>async with\<close> block (\<open>None\<close> when the block returns) and raises an
  exception of its own (\<open>Inl\<close>) or returns a value whose truth is \<open>Inr b\<close>. The last field,
  \<open>meanwhile\<close>, is what happens to the files while a call into the SDK runs, by the SDK
  itself or by anything else that runs in the meantime: another session on the same
  project directory, another process. Model resolution and \<^verbatim>\<open>Path.resolve\<close> (called
  without \<^verbatim>\<open>strict\<close>) are taken as total functions.
\<close>

record env =
  CLAUDE_SDK_AVAILABLE :: bool
  require_auth_token :: "error option"
  resolve_model_id :: "string \<Rightarrow> string"
  resolve :: "path \<Rightarrow> path"
  on_write :: write_answer
  on_unlink :: unlink_answer
  new_client :: "options \<Rightarrow> error option"
  aenter :: "error option"
  query :: "string \<Rightarrow> error option"
  receive_response :: stream
  aexit :: "error option \<Rightarrow> error + bool"
  meanwhile :: "call \<Rightarrow> (path \<rightharpoonup> string) \<Rightarrow> (path \<rightharpoonup> string)"

text \<open>The instance attributes set by \<^verbatim>\<open>__init__\<close>; \<open>None\<close> is Python's \<^verbatim>\<open>None\<close>.\<close>

record analysis_client =
  project_dir :: path
  language :: "string option"

section \<open>Class constants\<close>

definition DEFAULT_MODEL :: string where
  "DEFAULT_MODEL = ''sonnet''"

definition ALLOWED_TOOLS :: "string list" where
  "ALLOWED_TOOLS = [''Read'', ''Glob'', ''Grep'']"

definition MAX_TURNS :: nat where
  "MAX_TURNS = 50"

definition LANGUAGE_NAMES :: "string \<rightharpoonup> string" where
  "LANGUAGE_NAMES = map_of [(''en'', ''English''), (''ko'', ''Korean''), (''fr'', ''French'')]"

text \<open>\<^verbatim>\<open>d.get(key, default)\<close>.\<close>

definition dict_get :: "('k \<rightharpoonup> 'v) \<Rightarrow> 'k \<Rightarrow> 'v \<Rightarrow> 'v" where
  "dict_get d key dflt = (case d key of Some v \<Rightarrow> v | None \<Rightarrow> dflt)"

section \<open>JSON output\<close>

text \<open>
  The values \<^verbatim>\<open>json.dump\<close> is given here: booleans, strings, lists and dictionaries (in
  insertion order). \<open>json_encode indent level\<close> is the encoder with an indent: items are
  separated by a comma, each on a line of its own, keys by a colon and a space, and an
  empty container is written without a line break. Strings are written as
  \<^verbatim>\<open>ensure_ascii\<close> writes them, for code points below 256.
\<close>

datatype json = JBool bool | JString string | JArray "json list" | JObject "(string \<times> json) list"

definition hex_digit :: "nat \<Rightarrow> char" where
  "hex_digit d = ''0123456789abcdef'' ! d"

definition escape_char :: "char \<Rightarrow> string" where
  "escape_char c =
     (if c = CHR 0x22 then [CHR 0x5C, CHR 0x22]
      else if c = CHR 0x5C then [CHR 0x5C, CHR 0x5C]
      else if c = CHR 0x0A then [CHR 0x5C, CHR ''n'']
      else if c = CHR 0x0D then [CHR 0x5C, CHR ''r'']
      else if c = CHR 0x09 then [CHR 0x5C, CHR ''t'']
      else if c = CHR 0x08 then [CHR 0x5C, CHR ''b'']
      else if c = CHR 0x0C then [CHR 0x5C, CHR ''f'']
      else if (of_char c :: nat) < 0x20 \<or> 0x7E < (of_char c :: nat)
        then [CHR 0x5C, CHR ''u'', CHR ''0'', CHR ''0'',
              hex_digit (of_char c div 16), hex_digit (of_char c mod 16)]
      else [c])"

definition encode_string :: "string \<Rightarrow> string" where
  "encode_string s = CHR 0x22 # concat (map escape_char s) @ [CHR 0x22]"

definition newline_indent :: "nat \<Rightarrow> nat \<Rightarrow> string" where
  "newline_indent indent level = CHR 0x0A # replicate (indent * level) CHR '' ''"

definition encode_items :: "string \<Rightarrow> string \<Rightarrow> nat \<Rightarrow> nat \<Rightarrow> string list \<Rightarrow> string" where
  "encode_items opening closing indent level items =
     (if items = [] then opening @ closing
      else opening @ newline_indent indent (Suc level)
        @ join_with ('','' @ newline_indent indent (Suc level)) items
        @ newline_indent indent level @ closing)"

fun json_encode :: "nat \<Rightarrow> nat \<Rightarrow> json \<Rightarrow> string" where
  "json_encode indent level (JBool b) = (if b then ''true'' else ''false'')"
| "json_encode indent level (JString s) = encode_string s"
| "json_encode indent level (JArray xs) =
     encode_items ''['' '']'' indent level (map (json_encode indent (Suc level)) xs)"
| "json_encode indent level (JObject kvs) =
     encode_items ''{'' ''}'' indent level
       (map (\<lambda>(k, v). encode_string k @ '': '' @ json_encode indent (Suc level) v) kvs)"

definition json_dump :: "json \<Rightarrow> nat \<Rightarrow> string" where
  "json_dump obj indent = json_encode indent 0 obj"


section \<open>File system and SDK calls\<close>

text \<open>
  A call of the operating system is recorded and takes effect at once. A call into the
  SDK is recorded, and while it runs the files change as \<open>meanwhile\<close> says. The method
  gives up control nowhere else: between two of its calls the files stay as they are,
  but for the moment between \<^verbatim>\<open>exists()\<close> and \<^verbatim>\<open>unlink()\<close>, which the answer \<open>Vanished\<close>
  covers.
\<close>

definition os_call :: "call \<Rightarrow> world \<Rightarrow> world" where
  "os_call c w = w\<lparr>trace := trace w @ [(c, files w)]\<rparr>"

definition sdk_call :: "env \<Rightarrow> call \<Rightarrow> world \<Rightarrow> world" where
  "sdk_call e c w = w\<lparr>files := meanwhile e c (files w), trace := trace w @ [(c, files w)]\<rparr>"

text \<open>\<^verbatim>\<open>Path.exists()\<close>.\<close>

definition path_exists :: "path \<Rightarrow> world \<Rightarrow> bool" where
  "path_exists p w = (files w p \<noteq> None)"

text \<open>
  \<^verbatim>\<open>with open(p, "w") as f:\<close> followed by the writing of \<open>s\<close>: the file is created or
  replaced, unless the operating system answers with an error.
\<close>

definition write_file :: "env \<Rightarrow> path \<Rightarrow> string \<Rightarrow> world \<Rightarrow> error option \<times> world" where
  "write_file e p s w =
     (let w' = os_call (OpenWrite p s) w
      in case on_write e of
           Written \<Rightarrow> (None, w'\<lparr>files := (files w')(p \<mapsto> s)\<rparr>)
         | OpenFailed err \<Rightarrow> (Some err, w')
         | WriteFailed err partial \<Rightarrow> (Some err, w'\<lparr>files := (files w')(p \<mapsto> partial)\<rparr>))"

text \<open>
  \<^verbatim>\<open>Path.unlink()\<close> raises \<^verbatim>\<open>FileNotFoundError\<close> when the file is not there; when it is
  there, the operating system answers.
\<close>

definition unlink :: "env \<Rightarrow> path \<Rightarrow> world \<Rightarrow> error option \<times> world" where
  "unlink e p w =
     (let w' = os_call (Unlink p) w
      in if files w p = None then (Some (Error ''FileNotFoundError'' (str_path p)), w')
         else (case on_unlink e of
                 Removed \<Rightarrow> (None, w'\<lparr>files := (files w')(p := None)\<rparr>)
               | Vanished \<Rightarrow>
                   (Some (Error ''FileNotFoundError'' (str_path p)),
                    w'\<lparr>files := (files w')(p := None)\<rparr>)
               | Refused err \<Rightarrow> (Some err, w')))"

section \<open>ClaudeAnalysisClient\<close>

definition validate_oauth_token :: "env \<Rightarrow> error option" where
  "validate_oauth_token e = require_auth_token e"

text \<open>
  \<^verbatim>\<open>__init__\<close>: the instance is the result only when neither check raises. Nothing is
  written and the SDK is not called.
\<close>

definition init :: "env \<Rightarrow> path \<Rightarrow> string option \<Rightarrow> world \<Rightarrow> (error + analysis_client) \<times> world" where
  "init e pdir lang w =
     (if \<not> CLAUDE_SDK_AVAILABLE e
      then (Inl (Error ''RuntimeError''
              ''claude-agent-sdk not available. Install with: pip install claude-agent-sdk''), w)
      else (case validate_oauth_token e of
              Some err \<Rightarrow> (Inl err, w)
            | None \<Rightarrow> (Inr \<lparr>project_dir = pdir, language = lang\<rparr>, w)))"

definition settings_dict :: json where
  "settings_dict =
     JObject
       [(''sandbox'', JObject [(''enabled'', JBool True), (''autoAllowBashIfSandboxed'', JBool True)]),
        (''permissions'',
           JObject
             [(''defaultMode'', JString ''acceptEdits''),
              (''allow'', JArray [JString ''Read(./**)'', JString ''Glob(./**)'', JString ''Grep(./**)''])])]"

text \<open>\<^verbatim>\<open>_create_settings_file\<close>: an exception of the write leaves the method at once.\<close>

definition create_settings_file :: "env \<Rightarrow> analysis_client \<Rightarrow> world \<Rightarrow> (error + path) \<times> world" where
  "create_settings_file e self w =
     (let settings_file = joinpath (project_dir self) ''.claude_ai_analyzer_settings.json''
      in case write_file e settings_file (json_dump settings_dict 2) w of
           (Some err, w') \<Rightarrow> (Inl err, w')
         | (None, w') \<Rightarrow> (Inr settings_file, w'))"

text \<open>The f-string of the language requirement, as a function of \<^verbatim>\<open>language_name\<close>.\<close>

definition language_requirement :: "string \<Rightarrow> string" where
  "language_requirement language_name =
     ''\<newline>\<newline>**IMPORTANT LANGUAGE REQUIREMENT**: Write all analysis descriptions, ''
     @ ''recommendations, and explanations in **'' @ language_name @ ''**. ''
     @ ''JSON keys must remain in English, but all human-readable content values ''
     @ ''must be in '' @ language_name @ ''.''"

text \<open>
  \<^verbatim>\<open>if self.language and self.language != "en"\<close>: \<^verbatim>\<open>None\<close> and the empty string are falsy.
\<close>

definition language_instruction :: "analysis_client \<Rightarrow> string" where
  "language_instruction self =
     (case language self of
        None \<Rightarrow> []
      | Some l \<Rightarrow>
          if l \<noteq> [] \<and> l \<noteq> ''en''
          then language_requirement (dict_get LANGUAGE_NAMES l l)
          else [])"

definition build_system_prompt :: "env \<Rightarrow> analysis_client \<Rightarrow> string" where
  "build_system_prompt e self =
     ''You are a senior software architect analyzing this codebase. ''
     @ ''Your working directory is: '' @ str_path (resolve e (project_dir self)) @ ''\<newline>''
     @ ''Use Read, Grep, and Glob tools to analyze actual code. ''
     @ ''Output your analysis as valid JSON only.'' @ language_instruction self"

definition client_options :: "env \<Rightarrow> analysis_client \<Rightarrow> path \<Rightarrow> options" where
  "client_options e self settings_file =
     \<lparr>model = resolve_model_id e DEFAULT_MODEL,
      system_prompt = build_system_prompt e self,
      allowed_tools = ALLOWED_TOOLS,
      max_turns = MAX_TURNS,
      cwd = str_path (resolve e (project_dir self)),
      settings = str_path (resolve e settings_file)\<rparr>"


definition create_client :: "env \<Rightarrow> analysis_client \<Rightarrow> path \<Rightarrow> world \<Rightarrow> (error + options) \<times> world" where
  "create_client e self settings_file w =
     (let opts = client_options e self settings_file;
          w' = sdk_call e (NewClient opts) w
      in case new_client e opts of
           Some err \<Rightarrow> (Inl err, w')
         | None \<Rightarrow> (Inr opts, w'))"

text \<open>The inner \<^verbatim>\<open>for content in msg.content\<close> loop of \<^verbatim>\<open>_collect_response\<close>.\<close>

fun collect_content :: "string \<Rightarrow> block list \<Rightarrow> string" where
  "collect_content response_text [] = response_text"
| "collect_content response_text (c # cs) =
     collect_content
       (case text_attr c of Some t \<Rightarrow> response_text @ t | None \<Rightarrow> response_text) cs"

text \<open>The \<^verbatim>\<open>async for msg in client.receive_response()\<close> loop.\<close>

fun collect_loop :: "string \<Rightarrow> stream \<Rightarrow> error + string" where
  "collect_loop response_text End = Inr response_text"
| "collect_loop response_text (Raise err) = Inl err"
| "collect_loop response_text (Yield msg rest) =
     collect_loop
       (if type_name msg = ''AssistantMessage''
        then collect_content response_text (content msg)
        else response_text) rest"

definition collect_response :: "env \<Rightarrow> options \<Rightarrow> world \<Rightarrow> (error + string) \<times> world" where
  "collect_response e client w =
     (collect_loop [] (receive_response e), sdk_call e ReceiveResponse w)"

text \<open>
  The body of \<^verbatim>\<open>async with client:\<close>, after \<^verbatim>\<open>__aenter__\<close> has returned.
\<close>

definition with_body :: "env \<Rightarrow> options \<Rightarrow> string \<Rightarrow> world \<Rightarrow> (error + string) \<times> world" where
  "with_body e client prompt w =
     (let w' = sdk_call e (Query prompt) w
      in case query e prompt of
           Some err \<Rightarrow> (Inl err, w')
         | None \<Rightarrow> collect_response e client w')"

text \<open>
  Leaving the \<^verbatim>\<open>async with\<close> block. The block is left by \<^verbatim>\<open>return\<close> with a text or by an
  exception, and \<^verbatim>\<open>__aexit__\<close> is awaited with that exception, or with \<^verbatim>\<open>None\<close>. An
  exception raised by \<^verbatim>\<open>__aexit__\<close> takes the place of the text or of the exception. When
  \<^verbatim>\<open>__aexit__\<close> returns, the text is returned; an exception goes on, unless the value
  returned is true: then it is dropped, the statement after the block is the end of the
  method, and the method returns \<^verbatim>\<open>None\<close>.
\<close>

definition leave_with :: "env \<Rightarrow> error + string \<Rightarrow> error + string option" where
  "leave_with e r =
     (case r of
        Inr response_text \<Rightarrow>
          (case aexit e None of
             Inl err' \<Rightarrow> Inl err'
           | Inr b \<Rightarrow> Inr (Some response_text))
      | Inl err \<Rightarrow>
          (case aexit e (Some err) of
             Inl err' \<Rightarrow> Inl err'
           | Inr b \<Rightarrow> if b then Inr None else Inl err))"

text \<open>
  The \<^verbatim>\<open>try\<close> block. When the constructor or \<^verbatim>\<open>__aenter__\<close> raises, the body and
  \<^verbatim>\<open>__aexit__\<close> do not run.
\<close>

definition try_block :: "env \<Rightarrow> analysis_client \<Rightarrow> path \<Rightarrow> string \<Rightarrow> world \<Rightarrow> (error + string option) \<times> world" where
  "try_block e self settings_file prompt w =
     (case create_client e self settings_file w of
        (Inl err, w1) \<Rightarrow> (Inl err, w1)
      | (Inr client, w1) \<Rightarrow>
          (let w2 = sdk_call e AEnter w1
           in case aenter e of
                Some err \<Rightarrow> (Inl err, w2)
              | None \<Rightarrow>
                  (case with_body e client prompt w2 of
                     (r, w3) \<Rightarrow> (leave_with e r, sdk_call e AExit w3))))"

text \<open>The \<^verbatim>\<open>finally\<close> block.\<close>

definition cleanup :: "env \<Rightarrow> path \<Rightarrow> world \<Rightarrow> error option \<times> world" where
  "cleanup e settings_file w =
     (if path_exists settings_file w then unlink e settings_file w else (None, w))"

text \<open>
  \<^verbatim>\<open>run_analysis_query\<close>. The descriptor is written before the \<^verbatim>\<open>try\<close> statement: an
  exception of the write leaves the method with no session and no cleanup. The \<^verbatim>\<open>finally\<close>
  block runs however the \<^verbatim>\<open>try\<close> block ends, and an exception of its own takes the place
  of the outcome of the \<^verbatim>\<open>try\<close> block.
\<close>

definition run_analysis_query :: "env \<Rightarrow> analysis_client \<Rightarrow> string \<Rightarrow> world \<Rightarrow> (error + string option) \<times> world" where
  "run_analysis_query e self prompt w =
     (case create_settings_file e self w of
        (Inl err, w0) \<Rightarrow> (Inl err, w0)
      | (Inr settings_file, w0) \<Rightarrow>
          (case try_block e self settings_file prompt w0 of
             (r, w1) \<Rightarrow>
               (case cleanup e settings_file w1 of
                  (Some err, w2) \<Rightarrow> (Inl err, w2)
                | (None, w2) \<Rightarrow> (r, w2))))"

section \<open>Reading a stream\<close>

text \<open>
  The stream that delivers the given messages and ends cleanly, and the text the
  specification describes for it: the texts of the content items of the assistant
  messages, in arrival order.
\<close>

fun stream_of :: "message list \<Rightarrow> stream" where
  "stream_of [] = End"
| "stream_of (m # ms) = Yield m (stream_of ms)"

definition block_text :: "block \<Rightarrow> string" where
  "block_text c = (case text_attr c of Some t \<Rightarrow> t | None \<Rightarrow> [])"

definition message_text :: "message \<Rightarrow> string" where
  "message_text m =
     (if type_name m = ''AssistantMessage'' then concat (map block_text (content m)) else [])"

definition assistant_text :: "message list \<Rightarrow> string" where
  "assistant_text ms = concat (map message_text ms)"





section \<open>Names used in the statements\<close>

text \<open>
  The path of the permission descriptor: the file name that \<^verbatim>\<open>_create_settings_file\<close> joins
  to the project directory.
\<close>

definition descriptor_path :: "analysis_client \<Rightarrow> path" where
  "descriptor_path self = joinpath (project_dir self) ''.claude_ai_analyzer_settings.json''"

text \<open>The text written to the descriptor.\<close>

definition descriptor_text :: string where
  "descriptor_text = json_dump settings_dict 2"


text \<open>The calls a method has added to the trace of the world \<open>w\<close>, with their files.\<close>

definition new_calls :: "world \<Rightarrow> world \<Rightarrow> (call \<times> (path \<rightharpoonup> string)) list" where
  "new_calls w w' = drop (length (trace w)) (trace w')"

text \<open>The world in which the \<^verbatim>\<open>try\<close> block starts when the descriptor has been written.\<close>

definition written :: "analysis_client \<Rightarrow> world \<Rightarrow> world" where
  "written self w =
     w\<lparr>files := (files w)(descriptor_path self \<mapsto> descriptor_text),
       trace := trace w @ [(OpenWrite (descriptor_path self) descriptor_text, files w)]\<rparr>"

text \<open>
  A concrete session, the scenario of the specification: the project directory
  \<^verbatim>\<open>/repo\<close>, the language \<^verbatim>\<open>en\<close>, no file yet, an operating system that writes and removes
  the descriptor, nothing else at work on the files, and an SDK that answers with two
  assistant messages, \<^verbatim>\<open>A\<close> and \<^verbatim>\<open>B\<close>, and whose \<^verbatim>\<open>__aexit__\<close> returns false.
\<close>

definition example_env :: env where
  "example_env =
     \<lparr>CLAUDE_SDK_AVAILABLE = True,
      require_auth_token = None,
      resolve_model_id = (\<lambda>m. ''model-'' @ m),
      resolve = (\<lambda>p. p),
      on_write = Written,
      on_unlink = Removed,
      new_client = (\<lambda>opts. None),
      aenter = None,
      query = (\<lambda>prompt. None),
      receive_response =
        stream_of [Message ''AssistantMessage'' [Block (Some ''A'')],
                   Message ''AssistantMessage'' [Block (Some ''B'')]],
      aexit = (\<lambda>exc. Inr False),
      meanwhile = (\<lambda>c f. f)\<rparr>"

definition example_client :: analysis_client where
  "example_client = \<lparr>project_dir = [''/'', ''repo''], language = Some ''en''\<rparr>"

definition example_world :: world where
  "example_world = \<lparr>files = Map.empty, trace = []\<rparr>"

text \<open>
  Another session on the same project directory that finishes, and removes the
  descriptor, while the query of this one is awaited.
\<close>

definition other_session_cleans_up :: "call \<Rightarrow> (path \<rightharpoonup> string) \<Rightarrow> (path \<rightharpoonup> string)" where
  "other_session_cleans_up c f =
     (case c of
        Query prompt \<Rightarrow> f(descriptor_path example_client := None)
      | _ \<Rightarrow> f)"

section \<open>Response collection\<close>

lemma collect_content_append:
  "collect_content acc cs = acc @ concat (map block_text cs)"
  by (induction cs arbitrary: acc) (simp_all add: block_text_def split: option.splits)

lemma collect_loop_stream_of:
  "collect_loop acc (stream_of ms) = Inr (acc @ assistant_text ms)"
  by (induction ms arbitrary: acc)
    (simp_all add: assistant_text_def message_text_def collect_content_append)


text \<open>
  Claim C3. For every finite stream of messages that ends cleanly, \<^verbatim>\<open>_collect_response\<close>
  returns the concatenation, in arrival order, of the \<^verbatim>\<open>text\<close> attributes of the content
  items of the messages whose type is \<^verbatim>\<open>AssistantMessage\<close>; a message of another type and a
  content item without a \<^verbatim>\<open>text\<close> attribute contribute nothing. Two assistant messages
  with the texts \<^verbatim>\<open>A\<close> and \<^verbatim>\<open>B\<close> give \<^verbatim>\<open>AB\<close>.
\<close>

theorem collect_response_assistant_text:
  "fst (collect_response (e\<lparr>receive_response := stream_of ms\<rparr>) client w) =
     Inr (assistant_text ms)
   \<and> assistant_text ms =
       concat (map (\<lambda>m. if type_name m = ''AssistantMessage''
                         then concat (map (\<lambda>c. case text_attr c of Some t \<Rightarrow> t | None \<Rightarrow> [])
                                 (content m))
                         else []) ms)
   \<and> fst (collect_response
        (e\<lparr>receive_response :=
            stream_of [Message ''AssistantMessage'' [Block (Some ''A'')],
                       Message ''AssistantMessage'' [Block (Some ''B'')]]\<rparr>) client w) = Inr ''AB''"
proof -
  have "assistant_text ms =
      concat (map (\<lambda>m. if type_name m = ''AssistantMessage''
                        then concat (map (\<lambda>c. case text_attr c of Some t \<Rightarrow> t | None \<Rightarrow> [])
                                (content m))
                        else []) ms)"
    unfolding assistant_text_def message_text_def block_text_def by (rule refl)
  then show ?thesis
    by (simp add: collect_response_def collect_loop_stream_of)
qed

section \<open>The session\<close>

lemma files_os_call [simp]: "files (os_call c w) = files w"
  by (simp add: os_call_def)

lemma trace_os_call [simp]: "trace (os_call c w) = trace w @ [(c, files w)]"
  by (simp add: os_call_def)

lemma files_sdk_call [simp]: "files (sdk_call e c w) = meanwhile e c (files w)"
  by (simp add: sdk_call_def)

lemma trace_sdk_call [simp]: "trace (sdk_call e c w) = trace w @ [(c, files w)]"
  by (simp add: sdk_call_def)

lemma new_calls_append [simp]: "trace w' = trace w @ new \<Longrightarrow> new_calls w w' = new"
  by (simp add: new_calls_def)


text \<open>The \<^verbatim>\<open>try\<close> block begins with the construction of the client and repeats no call.\<close>

lemma trace_try_block:
  "\<exists>new. trace (snd (try_block e self sf prompt w)) =
      trace w @ (NewClient (client_options e self sf), files w) # new
    \<and> fst ` set new \<subseteq> {AEnter, Query prompt, ReceiveResponse, AExit}
    \<and> distinct (map fst new)"
  by (simp add: try_block_def create_client_def with_body_def collect_response_def Let_def
      split: option.splits prod.splits sum.splits)


lemma create_settings_file_eq:
  "create_settings_file e self w =
     (case on_write e of
        Written \<Rightarrow>
          (Inr (descriptor_path self),
           w\<lparr>files := (files w)(descriptor_path self \<mapsto> descriptor_text),
             trace := trace w @ [(OpenWrite (descriptor_path self) descriptor_text, files w)]\<rparr>)
      | OpenFailed err \<Rightarrow>
          (Inl err,
           w\<lparr>trace := trace w @ [(OpenWrite (descriptor_path self) descriptor_text, files w)]\<rparr>)
      | WriteFailed err partial \<Rightarrow>
          (Inl err,
           w\<lparr>files := (files w)(descriptor_path self \<mapsto> partial),
             trace := trace w @ [(OpenWrite (descriptor_path self) descriptor_text, files w)]\<rparr>))"
  by (simp add: create_settings_file_def descriptor_path_def descriptor_text_def write_file_def
      os_call_def Let_def split: write_answer.splits)

lemma cleanup_absent: "files w p = None \<Longrightarrow> cleanup e p w = (None, w)"
  by (simp add: cleanup_def path_exists_def)

lemma cleanup_present:
  "files w p \<noteq> None \<Longrightarrow>
     cleanup e p w =
       (case on_unlink e of
          Removed \<Rightarrow> (None, w\<lparr>files := (files w)(p := None), trace := trace w @ [(Unlink p, files w)]\<rparr>)
        | Vanished \<Rightarrow>
            (Some (Error ''FileNotFoundError'' (str_path p)),
             w\<lparr>files := (files w)(p := None), trace := trace w @ [(Unlink p, files w)]\<rparr>)
        | Refused err \<Rightarrow> (Some err, w\<lparr>trace := trace w @ [(Unlink p, files w)]\<rparr>))"
  by (auto simp add: cleanup_def path_exists_def unlink_def os_call_def Let_def
      split: unlink_answer.splits)

text \<open>The whole call when the descriptor has been written.\<close>

lemma run_written:
  assumes "on_write e = Written"
  shows "run_analysis_query e self prompt w =
    (case cleanup e (descriptor_path self)
            (snd (try_block e self (descriptor_path self) prompt (written self w))) of
       (Some err, w2) \<Rightarrow> (Inl err, w2)
     | (None, w2) \<Rightarrow>
         (fst (try_block e self (descriptor_path self) prompt (written self w)), w2))"
proof -
  obtain r w1 where
    t: "try_block e self (descriptor_path self) prompt (written self w) = (r, w1)"
    by (cases "try_block e self (descriptor_path self) prompt (written self w)")
  obtain c w2 where c: "cleanup e (descriptor_path self) w1 = (c, w2)"
    by (cases "cleanup e (descriptor_path self) w1")
  show ?thesis
    unfolding written_def using assms t [unfolded written_def] c
    by (simp add: run_analysis_query_def create_settings_file_eq split: option.splits)
qed





text \<open>The calls of the whole call: the write, the \<^verbatim>\<open>try\<close> block, and one deletion or none.\<close>

lemma run_calls:
  assumes "on_write e = Written"
  shows "\<exists>new fin.
      new_calls w (snd (run_analysis_query e self prompt w)) =
        (OpenWrite (descriptor_path self) descriptor_text, files w)
        # (NewClient (client_options e self (descriptor_path self)),
             (files w)(descriptor_path self \<mapsto> descriptor_text))
        # new @ fin
    \<and> new_calls (written self w)
        (snd (try_block e self (descriptor_path self) prompt (written self w))) =
        (NewClient (client_options e self (descriptor_path self)),
             (files w)(descriptor_path self \<mapsto> descriptor_text)) # new
    \<and> fst ` set new \<subseteq> {AEnter, Query prompt, ReceiveResponse, AExit}
    \<and> distinct (map fst new)
    \<and> (if files (snd (try_block e self (descriptor_path self) prompt (written self w)))
            (descriptor_path self) = None
        then fin = []
        else fin = [(Unlink (descriptor_path self),
               files (snd (try_block e self (descriptor_path self) prompt (written self w))))])"
proof -
  let ?p = "descriptor_path self"
  let ?t = "try_block e self ?p prompt (written self w)"
  from trace_try_block [of e self ?p prompt "written self w"]
  obtain new where
    t: "trace (snd ?t) = trace (written self w) @ (NewClient (client_options e self ?p), files (written self w)) # new"
    and s: "fst ` set new \<subseteq> {AEnter, Query prompt, ReceiveResponse, AExit}"
    and d: "distinct (map fst new)"
    by blast
  show ?thesis
  proof (cases "files (snd ?t) ?p = None")
    case True
    with t s d show ?thesis
      by (intro exI [of _ new] exI [of _ "[]"])
        (simp add: run_written [OF assms] cleanup_absent written_def new_calls_def)
  next
    case False
    with t s d show ?thesis
      by (intro exI [of _ new] exI [of _ "[(Unlink ?p, files (snd ?t))]"])
        (simp add: run_written [OF assms] cleanup_present written_def new_calls_def
          split: unlink_answer.splits)
  qed
qed


lemmas run_defs = run_analysis_query_def create_settings_file_def write_file_def try_block_def
  create_client_def with_body_def collect_response_def leave_with_def cleanup_def
  path_exists_def unlink_def sdk_call_def os_call_def new_calls_def Let_def









section \<open>The cleanup\<close>

text \<open>
  Claim C10. The cleanup asks first whether the descriptor exists. When it does not, the
  cleanup does nothing: it raises no error, makes no call and leaves the world as it is,
  whatever the operating system would answer to a deletion; without the question,
  \<^verbatim>\<open>unlink\<close> would raise \<^verbatim>\<open>FileNotFoundError\<close>. When the descriptor exists, the cleanup is
  the one call of \<^verbatim>\<open>unlink\<close>. So a call of \<^verbatim>\<open>run_analysis_query\<close> whose descriptor has been
  removed by the time the \<^verbatim>\<open>try\<close> block ends has the outcome of the \<^verbatim>\<open>try\<close> block and
  the world it left.
\<close>

theorem cleanup_deletes_only_an_existing_descriptor:
  "(files w p = None \<longrightarrow> cleanup e p w = (None, w))
   \<and> (files w p = None \<longrightarrow>
        fst (unlink e p w) = Some (Error ''FileNotFoundError'' (str_path p)))
   \<and> (files w p \<noteq> None \<longrightarrow>
        cleanup e p w = unlink e p w
      \<and> new_calls w (snd (cleanup e p w)) = [(Unlink p, files w)])
   \<and> (on_write e = Written
        \<and> files (snd (try_block e self (descriptor_path self) prompt (written self w)))
            (descriptor_path self) = None \<longrightarrow>
        run_analysis_query e self prompt w =
          try_block e self (descriptor_path self) prompt (written self w))"
proof -
  have absent: "cleanup e p w = (None, w)" if "files w p = None"
    using that by (rule cleanup_absent)
  have unguarded: "fst (unlink e p w) = Some (Error ''FileNotFoundError'' (str_path p))"
    if "files w p = None"
    using that by (simp add: unlink_def Let_def)
  have present: "cleanup e p w = unlink e p w
      \<and> new_calls w (snd (cleanup e p w)) = [(Unlink p, files w)]"
    if "files w p \<noteq> None"
    using that
    by (auto simp add: cleanup_def path_exists_def unlink_def new_calls_def Let_def
        split: unlink_answer.splits)
  have run: "run_analysis_query e self prompt w =
      try_block e self (descriptor_path self) prompt (written self w)"
    if "on_write e = Written"
      and "files (snd (try_block e self (descriptor_path self) prompt (written self w)))
            (descriptor_path self) = None"
    using that by (simp add: run_written cleanup_absent)
  from absent unguarded present run show ?thesis
    by blast
qed

theorem cleanup_deletes_only_an_existing_descriptor_witness:
  "files example_world (descriptor_path example_client) = None
   \<and> cleanup (example_env\<lparr>on_unlink := Refused (Error ''PermissionError'' ''denied'')\<rparr>)
        (descriptor_path example_client) example_world = (None, example_world)
   \<and> on_write
        (example_env
           \<lparr>on_unlink := Refused (Error ''PermissionError'' ''denied''),
            meanwhile := other_session_cleans_up\<rparr>) = Written
   \<and> fst (run_analysis_query
        (example_env
           \<lparr>on_unlink := Refused (Error ''PermissionError'' ''denied''),
            meanwhile := other_session_cleans_up\<rparr>)
        example_client ''analyze'' example_world) = Inr (Some ''AB'')
   \<and> map fst (new_calls example_world
        (snd (run_analysis_query
          (example_env
             \<lparr>on_unlink := Refused (Error ''PermissionError'' ''denied''),
              meanwhile := other_session_cleans_up\<rparr>)
          example_client ''analyze'' example_world))) =
       [OpenWrite (descriptor_path example_client) descriptor_text,
        NewClient (client_options example_env example_client (descriptor_path example_client)),
        AEnter, Query ''analyze'', ReceiveResponse, AExit]
   \<and> files (written example_client example_world) (descriptor_path example_client) \<noteq> None
   \<and> cleanup example_env (descriptor_path example_client)
        (written example_client example_world) =
       (None,
        \<lparr>files = Map.empty,
         trace =
           [(OpenWrite (descriptor_path example_client) descriptor_text, Map.empty),
            (Unlink (descriptor_path example_client),
               [descriptor_path example_client \<mapsto> descriptor_text])]\<rparr>)"
  using
    cleanup_deletes_only_an_existing_descriptor
      [of example_world "descriptor_path example_client"
        "example_env
           \<lparr>on_unlink := Refused (Error ''PermissionError'' ''denied''),
            meanwhile := other_session_cleans_up\<rparr>"
        example_client "''analyze''"]
    cleanup_deletes_only_an_existing_descriptor
      [of "written example_client example_world" "descriptor_path example_client"
        example_env example_client "''analyze''"]
  by (simp add: run_defs written_def example_env_def example_world_def
      other_session_cleans_up_def descriptor_path_def client_options_def
      build_system_prompt_def)


section \<open>Construction\<close>

text \<open>
  Claim C6. For every project directory and language, when the credential check raises,
  the construction of \<^verbatim>\<open>ClaudeAnalysisClient\<close> raises and gives no instance: the exception
  is the one of the credential check (when the SDK is missing, the \<^verbatim>\<open>RuntimeError\<close> of
  the first check comes before it). The world is what it was: no call has been made, so
  no session has been opened, and no file has been written.
\<close>

theorem construction_fails_when_credential_check_raises:
  "(require_auth_token e = Some err \<and> CLAUDE_SDK_AVAILABLE e \<longrightarrow>
      init e pdir lang w = (Inl err, w))
   \<and> (require_auth_token e = Some err \<longrightarrow>
        (\<exists>err'. fst (init e pdir lang w) = Inl err')
      \<and> new_calls w (snd (init e pdir lang w)) = []
      \<and> files (snd (init e pdir lang w)) = files w
      \<and> snd (init e pdir lang w) = w)"
  by (simp add: init_def validate_oauth_token_def new_calls_def)

theorem construction_fails_when_credential_check_raises_witness:
  "init (example_env\<lparr>require_auth_token := Some (Error ''ValueError'' ''No OAuth token found'')\<rparr>)
       [''/'', ''repo''] (Some ''ko'') example_world =
     (Inl (Error ''ValueError'' ''No OAuth token found''), example_world)
   \<and> require_auth_token
        (example_env\<lparr>require_auth_token := Some (Error ''ValueError'' ''No OAuth token found'')\<rparr>) =
       Some (Error ''ValueError'' ''No OAuth token found'')
   \<and> CLAUDE_SDK_AVAILABLE
        (example_env\<lparr>require_auth_token := Some (Error ''ValueError'' ''No OAuth token found'')\<rparr>)"
  using construction_fails_when_credential_check_raises
    [of "example_env\<lparr>require_auth_token := Some (Error ''ValueError'' ''No OAuth token found'')\<rparr>"
      "Error ''ValueError'' ''No OAuth token found''" "[''/'', ''repo'']" "Some ''ko''"
      example_world]
  by (simp add: example_env_def)


section \<open>The descriptor and the client\<close>

lemma descriptor_text_literal:
  \<open>descriptor_text =
     ''{\<newline>  "sandbox": {\<newline>    "enabled": true,\<newline>    "autoAllowBashIfSandboxed": true\<newline>  },\<newline>  "permissions": {\<newline>    "defaultMode": "acceptEdits",\<newline>    "allow": [\<newline>      "Read(./**)",\<newline>      "Glob(./**)",\<newline>      "Grep(./**)"\<newline>    ]\<newline>  }\<newline>}''\<close>
  unfolding descriptor_text_def by code_simp

text \<open>
  Claim C7. Every call of \<^verbatim>\<open>_create_settings_file\<close> makes one write, to the file
  \<^verbatim>\<open>.claude_ai_analyzer_settings.json\<close> in the project directory, of one text: the JSON
  document, indented by two, with \<^verbatim>\<open>sandbox.enabled\<close> and
  \<^verbatim>\<open>sandbox.autoAllowBashIfSandboxed\<close> true, \<^verbatim>\<open>permissions.defaultMode\<close> \<^verbatim>\<open>acceptEdits\<close> and
  \<^verbatim>\<open>permissions.allow\<close> the three entries \<^verbatim>\<open>Read(./**)\<close>, \<^verbatim>\<open>Glob(./**)\<close>, \<^verbatim>\<open>Grep(./**)\<close>.
  Unless the operating system answers the write with an error, the method returns that
  path and the file holds exactly that text, whatever it held before, and no other file
  has changed. The method returns a path in no other case: an error of the write is
  raised to the caller.
\<close>

theorem settings_file_is_written_at_the_fixed_path:
  \<open>new_calls w (snd (create_settings_file e self w)) =
      [(OpenWrite (project_dir self @ [''.claude_ai_analyzer_settings.json''])
          (json_dump settings_dict 2), files w)]
   \<and> (on_write e = Written \<longrightarrow>
        fst (create_settings_file e self w) =
          Inr (project_dir self @ [''.claude_ai_analyzer_settings.json''])
      \<and> files (snd (create_settings_file e self w)) =
          (files w)(project_dir self @ [''.claude_ai_analyzer_settings.json'']
             \<mapsto> json_dump settings_dict 2))
   \<and> (fst (create_settings_file e self w) = Inr settings_file \<longrightarrow>
        on_write e = Written
      \<and> settings_file = project_dir self @ [''.claude_ai_analyzer_settings.json'']
      \<and> files (snd (create_settings_file e self w)) settings_file =
          Some (json_dump settings_dict 2))
   \<and> (on_write e = OpenFailed err \<longrightarrow>
        fst (create_settings_file e self w) = Inl err
      \<and> files (snd (create_settings_file e self w)) = files w)
   \<and> json_dump settings_dict 2 =
       ''{\<newline>  "sandbox": {\<newline>    "enabled": true,\<newline>    "autoAllowBashIfSandboxed": true\<newline>  },\<newline>  "permissions": {\<newline>    "defaultMode": "acceptEdits",\<newline>    "allow": [\<newline>      "Read(./**)",\<newline>      "Glob(./**)",\<newline>      "Grep(./**)"\<newline>    ]\<newline>  }\<newline>}''\<close>
proof -
  have lit: \<open>json_dump settings_dict 2 =
       ''{\<newline>  "sandbox": {\<newline>    "enabled": true,\<newline>    "autoAllowBashIfSandboxed": true\<newline>  },\<newline>  "permissions": {\<newline>    "defaultMode": "acceptEdits",\<newline>    "allow": [\<newline>      "Read(./**)",\<newline>      "Glob(./**)",\<newline>      "Grep(./**)"\<newline>    ]\<newline>  }\<newline>}''\<close>
    using descriptor_text_literal by (simp only: descriptor_text_def)
  have path: "descriptor_path self = project_dir self @ [''.claude_ai_analyzer_settings.json'']"
    by (simp add: descriptor_path_def joinpath_def)
  have calls: "new_calls w (snd (create_settings_file e self w)) =
      [(OpenWrite (descriptor_path self) descriptor_text, files w)]"
    by (cases "on_write e") (simp_all add: create_settings_file_eq new_calls_def)
  have ok: "fst (create_settings_file e self w) = Inr (descriptor_path self)
      \<and> files (snd (create_settings_file e self w)) =
          (files w)(descriptor_path self \<mapsto> descriptor_text)"
    if "on_write e = Written"
    using that by (simp add: create_settings_file_eq)
  have only: "on_write e = Written \<and> settings_file = descriptor_path self
      \<and> files (snd (create_settings_file e self w)) settings_file = Some descriptor_text"
    if "fst (create_settings_file e self w) = Inr settings_file"
    using that by (cases "on_write e") (auto simp add: create_settings_file_eq)
  have failed: "fst (create_settings_file e self w) = Inl err
      \<and> files (snd (create_settings_file e self w)) = files w"
    if "on_write e = OpenFailed err"
    using that by (simp add: create_settings_file_eq)
  from calls ok only failed have parts:
    "new_calls w (snd (create_settings_file e self w)) =
        [(OpenWrite (descriptor_path self) descriptor_text, files w)]
     \<and> (on_write e = Written \<longrightarrow>
          fst (create_settings_file e self w) = Inr (descriptor_path self)
        \<and> files (snd (create_settings_file e self w)) =
            (files w)(descriptor_path self \<mapsto> descriptor_text))
     \<and> (fst (create_settings_file e self w) = Inr settings_file \<longrightarrow>
          on_write e = Written
        \<and> settings_file = descriptor_path self
        \<and> files (snd (create_settings_file e self w)) settings_file = Some descriptor_text)
     \<and> (on_write e = OpenFailed err \<longrightarrow>
          fst (create_settings_file e self w) = Inl err
        \<and> files (snd (create_settings_file e self w)) = files w)"
    by blast
  from parts [unfolded path descriptor_text_def] lit show ?thesis
    by blast
qed

theorem settings_file_is_written_at_the_fixed_path_witness:
  \<open>on_write example_env = Written
   \<and> create_settings_file example_env example_client
        \<lparr>files = [[''/'', ''repo'', ''.claude_ai_analyzer_settings.json''] \<mapsto> ''stale''], trace = []\<rparr> =
      (Inr [''/'', ''repo'', ''.claude_ai_analyzer_settings.json''],
       \<lparr>files = [[''/'', ''repo'', ''.claude_ai_analyzer_settings.json''] \<mapsto>
          ''{\<newline>  "sandbox": {\<newline>    "enabled": true,\<newline>    "autoAllowBashIfSandboxed": true\<newline>  },\<newline>  "permissions": {\<newline>    "defaultMode": "acceptEdits",\<newline>    "allow": [\<newline>      "Read(./**)",\<newline>      "Glob(./**)",\<newline>      "Grep(./**)"\<newline>    ]\<newline>  }\<newline>}''],
        trace =
          [(OpenWrite [''/'', ''repo'', ''.claude_ai_analyzer_settings.json'']
              ''{\<newline>  "sandbox": {\<newline>    "enabled": true,\<newline>    "autoAllowBashIfSandboxed": true\<newline>  },\<newline>  "permissions": {\<newline>    "defaultMode": "acceptEdits",\<newline>    "allow": [\<newline>      "Read(./**)",\<newline>      "Glob(./**)",\<newline>      "Grep(./**)"\<newline>    ]\<newline>  }\<newline>}'',
            [[''/'', ''repo'', ''.claude_ai_analyzer_settings.json''] \<mapsto> ''stale''])]\<rparr>)\<close>
  using settings_file_is_written_at_the_fixed_path
    [of "\<lparr>files = [[''/'', ''repo'', ''.claude_ai_analyzer_settings.json''] \<mapsto> ''stale''], trace = []\<rparr>"
      example_env example_client "[''/'', ''repo'', ''.claude_ai_analyzer_settings.json'']"
      "Error [] []"]
  by (simp add: example_env_def example_client_def create_settings_file_def write_file_def
      os_call_def joinpath_def Let_def)


text \<open>
  Claim C8. Every call of \<^verbatim>\<open>_create_client\<close> makes one call, the construction of the SDK
  client, with these options and no others: the model that \<^verbatim>\<open>resolve_model_id\<close> gives for
  \<^verbatim>\<open>sonnet\<close>, the system prompt, the tools \<^verbatim>\<open>Read\<close>, \<^verbatim>\<open>Glob\<close>, \<^verbatim>\<open>Grep\<close>, 50 turns at most,
  the resolved project directory as working directory, and the resolved path of the
  settings file. In \<^verbatim>\<open>run_analysis_query\<close>, once the descriptor is written, that is the
  second call, the settings file is the descriptor, and no client is constructed again.
\<close>

theorem client_is_constructed_with_the_fixed_bundle:
  "new_calls w (snd (create_client e self settings_file w)) =
      [(NewClient
          \<lparr>model = resolve_model_id e ''sonnet'',
           system_prompt = build_system_prompt e self,
           allowed_tools = [''Read'', ''Glob'', ''Grep''],
           max_turns = 50,
           cwd = str_path (resolve e (project_dir self)),
           settings = str_path (resolve e settings_file)\<rparr>, files w)]
   \<and> (new_client e (client_options e self settings_file) = None \<longrightarrow>
        fst (create_client e self settings_file w) =
          Inr \<lparr>model = resolve_model_id e ''sonnet'',
               system_prompt = build_system_prompt e self,
               allowed_tools = [''Read'', ''Glob'', ''Grep''],
               max_turns = 50,
               cwd = str_path (resolve e (project_dir self)),
               settings = str_path (resolve e settings_file)\<rparr>)
   \<and> (on_write e = Written \<longrightarrow>
        (\<exists>rest. map fst (new_calls w (snd (run_analysis_query e self prompt w))) =
            OpenWrite (descriptor_path self) descriptor_text
            # NewClient
                \<lparr>model = resolve_model_id e ''sonnet'',
                 system_prompt = build_system_prompt e self,
                 allowed_tools = [''Read'', ''Glob'', ''Grep''],
                 max_turns = 50,
                 cwd = str_path (resolve e (project_dir self)),
                 settings = str_path (resolve e (descriptor_path self))\<rparr>
            # rest
          \<and> (\<forall>opts. NewClient opts \<notin> set rest)))"
proof -
  have opts: "client_options e self sf =
      \<lparr>model = resolve_model_id e ''sonnet'',
       system_prompt = build_system_prompt e self,
       allowed_tools = [''Read'', ''Glob'', ''Grep''],
       max_turns = 50,
       cwd = str_path (resolve e (project_dir self)),
       settings = str_path (resolve e sf)\<rparr>" for sf
    by (simp add: client_options_def DEFAULT_MODEL_def ALLOWED_TOOLS_def MAX_TURNS_def)
  have one: "new_calls w (snd (create_client e self settings_file w)) =
      [(NewClient (client_options e self settings_file), files w)]"
    by (simp add: create_client_def new_calls_def Let_def split: option.splits)
  have res: "fst (create_client e self settings_file w) = Inr (client_options e self settings_file)"
    if "new_client e (client_options e self settings_file) = None"
    using that by (simp add: create_client_def Let_def)
  have run: "\<exists>rest. map fst (new_calls w (snd (run_analysis_query e self prompt w))) =
        OpenWrite (descriptor_path self) descriptor_text
        # NewClient (client_options e self (descriptor_path self)) # rest
      \<and> (\<forall>opts. NewClient opts \<notin> set rest)"
    if wr: "on_write e = Written"
  proof -
    let ?p = "descriptor_path self"
    let ?t = "try_block e self ?p prompt (written self w)"
    from run_calls [OF wr, of w self prompt] obtain new fin where
      c: "new_calls w (snd (run_analysis_query e self prompt w)) =
          (OpenWrite ?p descriptor_text, files w)
          # (NewClient (client_options e self ?p), (files w)(?p \<mapsto> descriptor_text))
          # new @ fin"
      and s: "fst ` set new \<subseteq> {AEnter, Query prompt, ReceiveResponse, AExit}"
      and f: "if files (snd ?t) ?p = None then fin = []
          else fin = [(Unlink ?p, files (snd ?t))]"
      by blast
    from s f have "\<forall>opts. NewClient opts \<notin> set (map fst (new @ fin))"
      by (auto split: if_splits)
    then show ?thesis
      unfolding c by (intro exI [of _ "map fst (new @ fin)"]) simp
  qed
  from one res run show ?thesis
    unfolding opts by blast
qed

theorem client_is_constructed_with_the_fixed_bundle_witness:
  "on_write example_env = Written
   \<and> new_calls example_world
        (snd (create_client example_env example_client (descriptor_path example_client)
               example_world)) =
       [(NewClient
          \<lparr>model = ''model-sonnet'',
           system_prompt =
             ''You are a senior software architect analyzing this codebase. Your working directory is: /repo\<newline>Use Read, Grep, and Glob tools to analyze actual code. Output your analysis as valid JSON only.'',
           allowed_tools = [''Read'', ''Glob'', ''Grep''],
           max_turns = 50,
           cwd = ''/repo'',
           settings = ''/repo/.claude_ai_analyzer_settings.json''\<rparr>, Map.empty)]
   \<and> map fst (new_calls example_world
        (snd (run_analysis_query example_env example_client ''analyze'' example_world))) ! 1 =
       NewClient
          \<lparr>model = ''model-sonnet'',
           system_prompt =
             ''You are a senior software architect analyzing this codebase. Your working directory is: /repo\<newline>Use Read, Grep, and Glob tools to analyze actual code. Output your analysis as valid JSON only.'',
           allowed_tools = [''Read'', ''Glob'', ''Grep''],
           max_turns = 50,
           cwd = ''/repo'',
           settings = ''/repo/.claude_ai_analyzer_settings.json''\<rparr>"
  using client_is_constructed_with_the_fixed_bundle
    [of example_world example_env example_client "descriptor_path example_client" "''analyze''"]
  by (auto simp add: example_env_def example_client_def example_world_def descriptor_path_def
      joinpath_def str_path_def build_system_prompt_def language_instruction_def)


section \<open>The system prompt\<close>

lemma language_names_other:
  "l \<notin> {''en'', ''ko'', ''fr''} \<Longrightarrow> LANGUAGE_NAMES l = None"
  by (simp add: LANGUAGE_NAMES_def)

text \<open>
  Claim C4, as amended. For every language code that is not empty and not \<^verbatim>\<open>en\<close>, the
  system prompt is the prompt of the default language followed by the language
  requirement that names the resolved display name (twice: the descriptions are to be
  written in that language, the JSON keys stay in English). For \<^verbatim>\<open>en\<close> the prompt is the
  fixed text with the working directory and nothing after \<^verbatim>\<open>valid JSON only.\<close>
\<close>

theorem language_clause_for_nonempty_codes:
  "(l \<noteq> [] \<and> l \<noteq> ''en'' \<longrightarrow>
       build_system_prompt e \<lparr>project_dir = d, language = Some l\<rparr> =
         build_system_prompt e \<lparr>project_dir = d, language = Some ''en''\<rparr>
           @ language_requirement (dict_get LANGUAGE_NAMES l l))
   \<and> build_system_prompt e \<lparr>project_dir = d, language = Some ''en''\<rparr> =
       ''You are a senior software architect analyzing this codebase. ''
       @ ''Your working directory is: '' @ str_path (resolve e d) @ ''\<newline>''
       @ ''Use Read, Grep, and Glob tools to analyze actual code. ''
       @ ''Output your analysis as valid JSON only.''
   \<and> language_requirement n =
       ''\<newline>\<newline>**IMPORTANT LANGUAGE REQUIREMENT**: Write all analysis descriptions, ''
       @ ''recommendations, and explanations in **'' @ n @ ''**. ''
       @ ''JSON keys must remain in English, but all human-readable content values ''
       @ ''must be in '' @ n @ ''.''"
  by (simp add: language_instruction_def build_system_prompt_def language_requirement_def)

theorem language_clause_for_nonempty_codes_witness:
  "build_system_prompt example_env \<lparr>project_dir = [''/'', ''repo''], language = Some ''ko''\<rparr> =
     ''You are a senior software architect analyzing this codebase. Your working directory is: /repo\<newline>Use Read, Grep, and Glob tools to analyze actual code. Output your analysis as valid JSON only.\<newline>\<newline>**IMPORTANT LANGUAGE REQUIREMENT**: Write all analysis descriptions, recommendations, and explanations in **Korean**. JSON keys must remain in English, but all human-readable content values must be in Korean.''"
  using language_clause_for_nonempty_codes
    [of "''ko''" example_env "[''/'', ''repo'']" "''Korean''"]
  by (simp add: example_env_def str_path_def dict_get_def LANGUAGE_NAMES_def)

text \<open>
  Claim C4 as it is written fails at the empty language code: it is a code other than
  \<^verbatim>\<open>en\<close>, and the prompt built for it is the prompt of the default language, with no
  language requirement anywhere in it.
\<close>

theorem language_clause_empty_code_counterexample:
  "([] :: string) \<noteq> ''en''
   \<and> build_system_prompt example_env \<lparr>project_dir = [''/'', ''repo''], language = Some []\<rparr> =
       ''You are a senior software architect analyzing this codebase. Your working directory is: /repo\<newline>Use Read, Grep, and Glob tools to analyze actual code. Output your analysis as valid JSON only.''
   \<and> \<not> sublist ''LANGUAGE REQUIREMENT''
        (build_system_prompt example_env \<lparr>project_dir = [''/'', ''repo''], language = Some []\<rparr>)"
  by (simp add: language_instruction_def build_system_prompt_def example_env_def str_path_def
      sublist_Cons_right)

text \<open>
  Claim C5. For a language code that is not a key of \<open>LANGUAGE_NAMES\<close> (the keys are
  \<^verbatim>\<open>en\<close>, \<^verbatim>\<open>ko\<close> and \<^verbatim>\<open>fr\<close>), the lookup with a default gives the code itself, and the
  language requirement of the prompt names that code; the prompt is built all the same.
  The code \<^verbatim>\<open>ko\<close> gives \<^verbatim>\<open>Korean\<close>, the unknown code \<^verbatim>\<open>xx\<close> gives \<^verbatim>\<open>xx\<close>.
\<close>

theorem unknown_language_code_is_its_own_name:
  "(l \<notin> {''en'', ''ko'', ''fr''} \<longrightarrow>
       dict_get LANGUAGE_NAMES l l = l
     \<and> (l \<noteq> [] \<longrightarrow>
          language_instruction \<lparr>project_dir = d, language = Some l\<rparr> = language_requirement l
        \<and> build_system_prompt e \<lparr>project_dir = d, language = Some l\<rparr> =
            build_system_prompt e \<lparr>project_dir = d, language = Some ''en''\<rparr>
              @ language_requirement l))
   \<and> dom LANGUAGE_NAMES = {''en'', ''ko'', ''fr''}
   \<and> dict_get LANGUAGE_NAMES ''ko'' ''ko'' = ''Korean''
   \<and> language_instruction \<lparr>project_dir = d, language = Some ''ko''\<rparr> =
       language_requirement ''Korean''
   \<and> dict_get LANGUAGE_NAMES ''xx'' ''xx'' = ''xx''
   \<and> language_instruction \<lparr>project_dir = d, language = Some ''xx''\<rparr> =
       language_requirement ''xx''"
proof -
  have "dom LANGUAGE_NAMES = {''en'', ''ko'', ''fr''}"
    by (auto simp: LANGUAGE_NAMES_def split: if_splits)
  then show ?thesis
    by (auto simp: language_names_other dict_get_def language_instruction_def
        build_system_prompt_def LANGUAGE_NAMES_def)
qed

theorem unknown_language_code_is_its_own_name_witness:
  "dict_get LANGUAGE_NAMES ''xx'' ''xx'' = ''xx''
   \<and> build_system_prompt example_env \<lparr>project_dir = [''/'', ''repo''], language = Some ''xx''\<rparr> =
       ''You are a senior software architect analyzing this codebase. Your working directory is: /repo\<newline>Use Read, Grep, and Glob tools to analyze actual code. Output your analysis as valid JSON only.\<newline>\<newline>**IMPORTANT LANGUAGE REQUIREMENT**: Write all analysis descriptions, recommendations, and explanations in **xx**. JSON keys must remain in English, but all human-readable content values must be in xx.''"
  using unknown_language_code_is_its_own_name [of "''xx''" "[''/'', ''repo'']" example_env]
  by (simp add: example_env_def str_path_def language_requirement_def
      build_system_prompt_def language_instruction_def)

text \<open>
  Claim C9. When the language is the empty string, which is not the default code, or
  \<^verbatim>\<open>None\<close>, nothing is appended to the system prompt: the prompt is the one of the
  default language.
\<close>

theorem empty_language_is_treated_as_default:
  "language_instruction \<lparr>project_dir = d, language = Some []\<rparr> = []
   \<and> language_instruction \<lparr>project_dir = d, language = None\<rparr> = []
   \<and> build_system_prompt e \<lparr>project_dir = d, language = Some []\<rparr> =
       build_system_prompt e \<lparr>project_dir = d, language = Some ''en''\<rparr>
   \<and> build_system_prompt e \<lparr>project_dir = d, language = None\<rparr> =
       build_system_prompt e \<lparr>project_dir = d, language = Some ''en''\<rparr>
   \<and> ([] :: string) \<noteq> ''en''"
  by (simp add: language_instruction_def build_system_prompt_def)


end
